theory Spec2Isabelle
  imports Main "HOL-Library.Sublist"
begin

section \<open>Values of the input table\<close>

text \<open>
  The program is a single command, \<open>main\<close> of \<open>anonymize_survival.py\<close>, that reads a table
  of patients, rebuilds two dates per row, filters and adjusts the rows and writes three
  columns. The cells of the input table are Python objects; the ones the program can tell
  apart are integers, strings and the missing value (a blank cell, read as NaN).
\<close>

datatype cell = IntV int | StrV string | NanV

text \<open>
  A row gives a cell for every column name; only the names listed in the table's
  \<open>columns\<close> carry data (a data frame is rectangular, so every row has every column).
\<close>

type_synonym row = "string \<Rightarrow> cell"

record table =
  columns :: "string list"
  rows :: "row list"

subsection \<open>Formatting a cell inside an f-string\<close>

fun str_of_nat :: "nat \<Rightarrow> string" where
  "str_of_nat n =
     (if n < 10 then [''0123456789'' ! n]
      else str_of_nat (n div 10) @ [''0123456789'' ! (n mod 10)])"

declare str_of_nat.simps [simp del]

definition str_of_int :: "int \<Rightarrow> string" where
  "str_of_int i = (if i < 0 then CHR ''-'' # str_of_nat (nat (- i)) else str_of_nat (nat i))"

text \<open>What \<open>f"{v}"\<close> prints for a cell \<open>v\<close>: the decimal digits of an integer, a string as
  it is, and \<open>nan\<close> for the missing value.\<close>

fun format_cell :: "cell \<Rightarrow> string" where
  "format_cell (IntV i) = str_of_int i"
| "format_cell (StrV s) = s"
| "format_cell NanV = ''nan''"

section \<open>Configuration\<close>

text \<open>The options of the command that the computation reads. The two paths, the file type
  and the reader arguments only select how the table is loaded; they are part of the
  \<open>world\<close> below.\<close>

record config =
  col_index :: string
  col_dod_yyyy :: string
  col_dod_mm :: string
  col_dod_dd :: string
  col_dolc_yyyy :: string
  col_dolc_mm :: string
  col_dolc_dd :: string
  col_vital_status :: string
  vital_status_value_alive :: string
  vital_status_value_deceased :: string

definition default_config :: config where
  "default_config =
     \<lparr> col_index = ''STUDYID'',
       col_dod_yyyy = ''D_DATE_OF_DIAGNOSIS_YYYY'',
       col_dod_mm = ''D_DATE_OF_DIAGNOSIS_MM'',
       col_dod_dd = ''D_DATE_OF_DIAGNOSIS_DD'',
       col_dolc_yyyy = ''D_DATE_OF_LAST_CONTACT_YYYY'',
       col_dolc_mm = ''D_DATE_OF_LAST_CONTACT_MM'',
       col_dolc_dd = ''D_DATE_OF_LAST_CONTACT_DD'',
       col_vital_status = ''D_VITAL_STATUS'',
       vital_status_value_alive = ''Alive'',
       vital_status_value_deceased = ''Dead'' \<rparr>"

section \<open>Date reconstruction\<close>

definition get_dt_diagnosis :: "row \<Rightarrow> string \<Rightarrow> string \<Rightarrow> string \<Rightarrow> string" where
  "get_dt_diagnosis r c_yyyy c_mm c_dd =
     (let y = r c_yyyy; m = r c_mm; d = r c_dd
      in format_cell y @ ''-'' @ format_cell m @ ''-'' @ format_cell d)"

definition get_dt_last_contact :: "row \<Rightarrow> string \<Rightarrow> string \<Rightarrow> string \<Rightarrow> string" where
  "get_dt_last_contact r c_yyyy c_mm c_dd =
     (let y = r c_yyyy; m = r c_mm; d = r c_dd
      in format_cell y @ ''-'' @ format_cell m @ ''-'' @ format_cell d)"

subsection \<open>The calendar\<close>

definition is_leap :: "nat \<Rightarrow> bool" where
  "is_leap y = (y mod 4 = 0 \<and> (y mod 100 \<noteq> 0 \<or> y mod 400 = 0))"

definition days_in_month :: "nat \<Rightarrow> nat \<Rightarrow> nat" where
  "days_in_month y m =
     (if m = 2 then (if is_leap y then 29 else 28)
      else if m = 4 \<or> m = 6 \<or> m = 9 \<or> m = 11 then 30 else 31)"

text \<open>
  The library's timestamps are not code of this repository either. A timestamp without time
  of day is kept as its number of days since 1970-01-01 in the proleptic Gregorian calendar,
  computed from year, month and day; comparing timestamps compares these numbers, and the
  difference of two timestamps read through \<open>.dt.days\<close> is their difference.
\<close>

definition days_from_civil :: "int \<Rightarrow> int \<Rightarrow> int \<Rightarrow> int" where
  "days_from_civil y m d =
     (let y' = (if m \<le> 2 then y - 1 else y);
          era = y' div 400;
          yoe = y' - era * 400;
          doy = (153 * (if 2 < m then m - 3 else m + 9) + 2) div 5 + d - 1;
          doe = yoe * 365 + yoe div 4 - yoe div 100 + doy
      in era * 146097 + doe - 719468)"

subsection \<open>Parsing with the format year-month-day, failures coerced\<close>

definition is_digit :: "char \<Rightarrow> bool" where
  "is_digit c = (48 \<le> (of_char c :: nat) \<and> (of_char c :: nat) \<le> 57)"

definition digit_val :: "char \<Rightarrow> nat" where
  "digit_val c = of_char c - 48"

definition nat_of_digits :: "string \<Rightarrow> nat" where
  "nat_of_digits s = foldl (\<lambda>a c. 10 * a + digit_val c) 0 s"

fun split_on :: "char \<Rightarrow> string \<Rightarrow> string list" where
  "split_on c [] = [[]]"
| "split_on c (x # xs) =
     (if x = c then [] # split_on c xs
      else (case split_on c xs of [] \<Rightarrow> [[x]] | p # ps \<Rightarrow> (x # p) # ps))"

text \<open>
  Modelled from the spec: the library call
  \<open>pandas.to_datetime(s, format="%Y-%m-%d", errors="coerce")\<close>, which is not code of this
  repository. The text is parsed under the year-month-day rule: three fields separated by
  hyphens, a year of four digits, a month and a day of one or two digits, that together
  name a day of the calendar. Anything else gives the unparseable marker (\<open>NaT\<close>), here
  \<open>None\<close>; nothing is raised. The bounds of the library's timestamp type are not modelled.
\<close>

definition to_datetime :: "string \<Rightarrow> int option" where
  "to_datetime s =
     (case split_on (CHR ''-'') s of
        [ys, ms, ds] \<Rightarrow>
          if length ys = 4 \<and> list_all is_digit ys
             \<and> (length ms = 1 \<or> length ms = 2) \<and> list_all is_digit ms
             \<and> (length ds = 1 \<or> length ds = 2) \<and> list_all is_digit ds
          then (let y = nat_of_digits ys; m = nat_of_digits ms; d = nat_of_digits ds
                in if 1 \<le> y \<and> 1 \<le> m \<and> m \<le> 12 \<and> 1 \<le> d \<and> d \<le> days_in_month y m
                   then Some (days_from_civil (int y) (int m) (int d))
                   else None)
          else None
      | _ \<Rightarrow> None)"

definition END_DATE :: int where
  "END_DATE = days_from_civil 2020 12 31"

section \<open>The rows of the frame as the program adds columns\<close>

text \<open>
  The program writes its derived columns into the same frame as the input columns. The
  model keeps them in fields of their own, which is what the program does whenever the eight
  configured column names differ from the names of the derived columns
  (\<open>date_of_diagnosis_yyyymmdd\<close>, \<open>date_of_last_contact_yyyymmdd\<close>,
  \<open>vital_status_at_study_end\<close>, \<open>date_of_last_contact_clipped_yyyymmdd\<close>, \<open>survivalA\<close>,
  \<open>censorA.0yes.1no\<close>).
\<close>

record dated_row =
  src :: row
  date_of_diagnosis_yyyymmdd :: int
  date_of_last_contact_yyyymmdd :: int

record adjusted_row = dated_row +
  vital_status_at_study_end :: cell
  date_of_last_contact_clipped_yyyymmdd :: int

record final_row = adjusted_row +
  survivalA :: int
  censorA :: cell

text \<open>Both date columns for every row, with \<open>None\<close> where coercion failed.\<close>

definition add_dates :: "config \<Rightarrow> row \<Rightarrow> row \<times> int option \<times> int option" where
  "add_dates cfg r =
     (r,
      to_datetime (get_dt_diagnosis r (col_dod_yyyy cfg) (col_dod_mm cfg) (col_dod_dd cfg)),
      to_datetime (get_dt_last_contact r (col_dolc_yyyy cfg) (col_dolc_mm cfg) (col_dolc_dd cfg)))"

text \<open>\<open>dropna\<close> on the two date columns: a row stays when both dates were parsed.\<close>

fun dropna :: "(row \<times> int option \<times> int option) list \<Rightarrow> dated_row list" where
  "dropna [] = []"
| "dropna ((r, Some dx, Some lc) # xs) =
     \<lparr> src = r, date_of_diagnosis_yyyymmdd = dx, date_of_last_contact_yyyymmdd = lc \<rparr> # dropna xs"
| "dropna ((r, _, _) # xs) = dropna xs"

definition diagnosed_prior_to_study_end :: "dated_row list \<Rightarrow> bool list" where
  "diagnosed_prior_to_study_end df = map (\<lambda>w. date_of_diagnosis_yyyymmdd w \<le> END_DATE) df"

definition deceased_overall_but_alive_at_study_end :: "config \<Rightarrow> dated_row \<Rightarrow> bool" where
  "deceased_overall_but_alive_at_study_end cfg w =
     (let last_contact_after_study_end = END_DATE < date_of_last_contact_yyyymmdd w;
          deceased = (src w (col_vital_status cfg) = StrV (vital_status_value_deceased cfg))
      in last_contact_after_study_end \<and> deceased)"

text \<open>\<open>clip(upper=u)\<close> on one value.\<close>

definition clip_upper :: "int \<Rightarrow> int \<Rightarrow> int" where
  "clip_upper u x = (if u < x then u else x)"

definition adjust :: "config \<Rightarrow> dated_row \<Rightarrow> adjusted_row" where
  "adjust cfg w =
     \<lparr> src = src w,
       date_of_diagnosis_yyyymmdd = date_of_diagnosis_yyyymmdd w,
       date_of_last_contact_yyyymmdd = date_of_last_contact_yyyymmdd w,
       vital_status_at_study_end =
         (if deceased_overall_but_alive_at_study_end cfg w
          then StrV (vital_status_value_alive cfg)
          else src w (col_vital_status cfg)),
       date_of_last_contact_clipped_yyyymmdd =
         clip_upper END_DATE (date_of_last_contact_yyyymmdd w) \<rparr>"

text \<open>Selecting the rows of a frame by a Boolean column computed earlier.\<close>

definition select_rows :: "'a list \<Rightarrow> bool list \<Rightarrow> 'a list" where
  "select_rows df sel = map fst (filter snd (zip df sel))"

text \<open>The dictionary \<open>{alive: 0, deceased: 1}\<close>: when both names are equal, the later
  entry stands.\<close>

definition censor_dict :: "config \<Rightarrow> string \<rightharpoonup> cell" where
  "censor_dict cfg =
     [vital_status_value_alive cfg \<mapsto> IntV 0, vital_status_value_deceased cfg \<mapsto> IntV 1]"

text \<open>\<open>replace\<close> with a dictionary whose keys are strings: a cell equal to a key becomes the
  key's value, every other cell stays.\<close>

fun replace_cell :: "(string \<rightharpoonup> cell) \<Rightarrow> cell \<Rightarrow> cell" where
  "replace_cell d (StrV s) = (case d s of Some v \<Rightarrow> v | None \<Rightarrow> StrV s)"
| "replace_cell d v = v"

definition finish :: "config \<Rightarrow> adjusted_row \<Rightarrow> final_row" where
  "finish cfg w =
     \<lparr> src = src w,
       date_of_diagnosis_yyyymmdd = date_of_diagnosis_yyyymmdd w,
       date_of_last_contact_yyyymmdd = date_of_last_contact_yyyymmdd w,
       vital_status_at_study_end = vital_status_at_study_end w,
       date_of_last_contact_clipped_yyyymmdd = date_of_last_contact_clipped_yyyymmdd w,
       survivalA = date_of_last_contact_clipped_yyyymmdd w - date_of_diagnosis_yyyymmdd w,
       censorA = replace_cell (censor_dict cfg) (vital_status_at_study_end w) \<rparr>"

text \<open>The frame after the last derived column, in the order of the program: dates, the
  drop of failed coercions, the mask of diagnoses up to the study end, the adjusted status
  and the clipped date, the selection by the mask, survival and censor.\<close>

definition final_frame :: "config \<Rightarrow> row list \<Rightarrow> final_row list" where
  "final_frame cfg rs =
     (let df = dropna (map (add_dates cfg) rs);
          prior = diagnosed_prior_to_study_end df;
          df2 = map (adjust cfg) df;
          df3 = select_rows df2 prior
      in map (finish cfg) df3)"

text \<open>One line of the output file: identifier, censor, survival in days.\<close>

type_synonym out_row = "cell \<times> cell \<times> int"

definition project :: "config \<Rightarrow> final_row \<Rightarrow> out_row" where
  "project cfg w = (src w (col_index cfg), censorA w, survivalA w)"

section \<open>The command\<close>

text \<open>
  What the command sees of its environment: whether the output path exists, and the table
  that loading the input gives (\<open>None\<close> when decoding the reader arguments or the reader
  itself raises). What it does to it is a list of events in the order they happen; the
  console tallies printed between the steps are left out.
\<close>

record world =
  outpath_exists :: bool
  input_table :: "table option"

datatype message =
    OutputPathExists
  | MissingColumns "string list"
  | AliveValueAbsent
  | DeceasedValueAbsent
  | SavingTo

datatype colour = Red | Yellow | Green

datatype event =
    CheckOutpath
  | ReadInput
  | Secho colour message
  | ToCsv "string list" "out_row list"

datatype exit_status = Exit0 | Exit1 | Raised

definition expected_cols :: "config \<Rightarrow> string list" where
  "expected_cols cfg =
     [col_index cfg, col_dod_yyyy cfg, col_dod_mm cfg, col_dod_dd cfg,
      col_dolc_yyyy cfg, col_dolc_mm cfg, col_dolc_dd cfg, col_vital_status cfg]"

definition vital_status_column :: "config \<Rightarrow> table \<Rightarrow> cell list" where
  "vital_status_column cfg df = map (\<lambda>r. r (col_vital_status cfg)) (rows df)"

definition main :: "config \<Rightarrow> world \<Rightarrow> event list \<times> exit_status" where
  "main cfg w =
     (if outpath_exists w then ([CheckOutpath, Secho Red OutputPathExists], Exit1)
      else
        (case input_table w of
           None \<Rightarrow> ([CheckOutpath, ReadInput], Raised)
         | Some df \<Rightarrow>
             (let missing_cols = filter (\<lambda>c. c \<notin> set (columns df)) (expected_cols cfg)
              in if missing_cols \<noteq> []
                 then ([CheckOutpath, ReadInput, Secho Red (MissingColumns missing_cols)], Exit1)
                 else if StrV (vital_status_value_alive cfg) \<notin> set (vital_status_column cfg df)
                 then ([CheckOutpath, ReadInput, Secho Red AliveValueAbsent], Exit1)
                 else
                   ([CheckOutpath, ReadInput]
                    @ (if StrV (vital_status_value_deceased cfg) \<notin> set (vital_status_column cfg df)
                       then [Secho Yellow DeceasedValueAbsent] else [])
                    @ [Secho Green SavingTo,
                       ToCsv [col_index cfg, ''censorA.0yes.1no'', ''survivalA'']
                         (map (project cfg) (final_frame cfg (rows df)))],
                    Exit0))))"

section \<open>Notions used to state the properties\<close>

text \<open>The rows of the file a run writes, if it writes one.\<close>

fun csv_written :: "event list \<Rightarrow> out_row list option" where
  "csv_written [] = None"
| "csv_written (ToCsv h out # es) = Some out"
| "csv_written (e # es) = csv_written es"

text \<open>
  The specification's wording for a triple of raw fields that forms a valid calendar date:
  each field is a number written in digits (a non-negative integer, or a string of digits)
  and the month and the day are within the bounds of the calendar.
\<close>

fun field_number :: "cell \<Rightarrow> nat option" where
  "field_number (IntV i) = (if 0 \<le> i then Some (nat i) else None)"
| "field_number (StrV s) = (if s \<noteq> [] \<and> list_all is_digit s then Some (nat_of_digits s) else None)"
| "field_number NanV = None"

definition forms_calendar_date :: "cell \<Rightarrow> cell \<Rightarrow> cell \<Rightarrow> bool" where
  "forms_calendar_date y m d =
     (case (field_number y, field_number m, field_number d) of
        (Some yy, Some mm, Some dd) \<Rightarrow> 1 \<le> mm \<and> mm \<le> 12 \<and> 1 \<le> dd \<and> dd \<le> days_in_month yy mm
      | _ \<Rightarrow> False)"

text \<open>The two filters of the program seen from an input row: both dates were parsed and
  the diagnosis is not after the study end.\<close>

definition retained :: "config \<Rightarrow> row \<Rightarrow> bool" where
  "retained cfg r =
     (case add_dates cfg r of
        (_, Some dx, Some lc) \<Rightarrow> dx \<le> END_DATE
      | _ \<Rightarrow> False)"

subsection \<open>Concrete patients under the default column names\<close>

definition patient ::
  "cell \<Rightarrow> cell \<Rightarrow> cell \<Rightarrow> cell \<Rightarrow> cell \<Rightarrow> cell \<Rightarrow> cell \<Rightarrow> cell \<Rightarrow> row" where
  "patient i y m d ly lm ld v =
     (\<lambda>c. NanV)
       (''STUDYID'' := i,
        ''D_DATE_OF_DIAGNOSIS_YYYY'' := y,
        ''D_DATE_OF_DIAGNOSIS_MM'' := m,
        ''D_DATE_OF_DIAGNOSIS_DD'' := d,
        ''D_DATE_OF_LAST_CONTACT_YYYY'' := ly,
        ''D_DATE_OF_LAST_CONTACT_MM'' := lm,
        ''D_DATE_OF_LAST_CONTACT_DD'' := ld,
        ''D_VITAL_STATUS'' := v)"

definition fresh_world :: "row list \<Rightarrow> world" where
  "fresh_world rs =
     \<lparr> outpath_exists = False,
       input_table = Some \<lparr> columns = expected_cols default_config, rows = rs \<rparr> \<rparr>"

text \<open>Scenario A of the specification, with numeric fields as a spreadsheet gives them.\<close>

definition patient_A :: row where
  "patient_A =
     patient (StrV ''A'') (IntV 2015) (IntV 1) (IntV 1) (IntV 2019) (IntV 6) (IntV 15)
       (StrV ''Alive'')"

text \<open>Scenario B, with text fields as a delimited file read as text gives them.\<close>

definition patient_B :: row where
  "patient_B =
     patient (StrV ''B'') (StrV ''2015'') (StrV ''01'') (StrV ''01'')
       (StrV ''2021'') (StrV ''03'') (StrV ''01'') (StrV ''Dead'')"

text \<open>Scenario D: the month of diagnosis is 13.\<close>

definition patient_D :: row where
  "patient_D =
     patient (StrV ''D'') (StrV ''2015'') (StrV ''13'') (StrV ''01'')
       (StrV ''2019'') (StrV ''06'') (StrV ''15'') (StrV ''Alive'')"

text \<open>A patient whose vital status cell is blank.\<close>

definition patient_blank :: row where
  "patient_blank =
     patient (StrV ''E'') (IntV 2015) (IntV 1) (IntV 1) (IntV 2019) (IntV 6) (IntV 15) NanV"

text \<open>A patient with a vital status outside the two sentinels.\<close>

definition patient_unknown :: row where
  "patient_unknown =
     patient (StrV ''F'') (IntV 2015) (IntV 1) (IntV 1) (IntV 2019) (IntV 6) (IntV 15)
       (StrV ''Unknown'')"

text \<open>A patient whose last contact is before the diagnosis.\<close>

definition patient_reversed :: row where
  "patient_reversed =
     patient (StrV ''G'') (IntV 2019) (IntV 6) (IntV 15) (IntV 2015) (IntV 1) (IntV 1)
       (StrV ''Alive'')"

text \<open>A patient recorded as deceased before the study end.\<close>

definition patient_dead :: row where
  "patient_dead =
     patient (StrV ''H'') (IntV 2015) (IntV 1) (IntV 1) (IntV 2019) (IntV 6) (IntV 15)
       (StrV ''Dead'')"

text \<open>A patient diagnosed after the study end (scenario C).\<close>

definition patient_C :: row where
  "patient_C =
     patient (StrV ''C'') (IntV 2021) (IntV 1) (IntV 5) (IntV 2021) (IntV 3) (IntV 1)
       (StrV ''Alive'')"

section \<open>Evaluation and structure of the frame\<close>

lemmas row_defs =
  patient_def patient_A_def patient_B_def patient_D_def patient_blank_def patient_unknown_def
  patient_reversed_def patient_dead_def patient_C_def

lemmas parse_defs =
  get_dt_diagnosis_def get_dt_last_contact_def str_of_int_def str_of_nat.simps
  to_datetime_def is_digit_def nat_of_digits_def digit_val_def days_in_month_def is_leap_def
  days_from_civil_def END_DATE_def

lemma END_DATE_value: "END_DATE = 18627"
  by (simp add: END_DATE_def days_from_civil_def)

lemma to_datetime_study_end: "to_datetime ''2020-12-31'' = Some END_DATE"
  by (simp add: parse_defs)

lemma select_rows_map: "select_rows (map f xs) (map p xs) = map f (filter p xs)"
  by (induction xs) (simp_all add: select_rows_def)

lemma final_frame_filter:
  "final_frame cfg rs =
     map (\<lambda>w. finish cfg (adjust cfg w))
       (filter (\<lambda>w. date_of_diagnosis_yyyymmdd w \<le> END_DATE) (dropna (map (add_dates cfg) rs)))"
  by (simp add: final_frame_def diagnosed_prior_to_study_end_def select_rows_map Let_def)

lemma set_dropna:
  "set (dropna xs) =
     {\<lparr> src = r, date_of_diagnosis_yyyymmdd = a, date_of_last_contact_yyyymmdd = b \<rparr> | r a b.
        (r, Some a, Some b) \<in> set xs}"
  by (induction xs rule: dropna.induct) auto

lemma fst_add_dates: "fst (add_dates cfg r) = r"
  by (simp add: add_dates_def)

lemma in_dropna_add_dates:
  "d \<in> set (dropna (map (add_dates cfg) rs)) \<longleftrightarrow>
     (\<exists>r a b. r \<in> set rs \<and> add_dates cfg r = (r, Some a, Some b)
        \<and> d = \<lparr> src = r, date_of_diagnosis_yyyymmdd = a, date_of_last_contact_yyyymmdd = b \<rparr>)"
proof
  assume "d \<in> set (dropna (map (add_dates cfg) rs))"
  then obtain r a b where d: "d = \<lparr> src = r, date_of_diagnosis_yyyymmdd = a, date_of_last_contact_yyyymmdd = b \<rparr>"
    and mem: "(r, Some a, Some b) \<in> set (map (add_dates cfg) rs)"
    unfolding set_dropna by blast
  from mem obtain r' where r': "r' \<in> set rs" and eq: "add_dates cfg r' = (r, Some a, Some b)"
    by auto
  from eq have "r' = r" using fst_add_dates [of cfg r'] by simp
  with r' eq d show "\<exists>r a b. r \<in> set rs \<and> add_dates cfg r = (r, Some a, Some b)
        \<and> d = \<lparr> src = r, date_of_diagnosis_yyyymmdd = a, date_of_last_contact_yyyymmdd = b \<rparr>"
    by blast
next
  assume "\<exists>r a b. r \<in> set rs \<and> add_dates cfg r = (r, Some a, Some b)
        \<and> d = \<lparr> src = r, date_of_diagnosis_yyyymmdd = a, date_of_last_contact_yyyymmdd = b \<rparr>"
  then obtain r a b where "r \<in> set rs" "add_dates cfg r = (r, Some a, Some b)"
    "d = \<lparr> src = r, date_of_diagnosis_yyyymmdd = a, date_of_last_contact_yyyymmdd = b \<rparr>"
    by blast
  then have "(r, Some a, Some b) \<in> set (map (add_dates cfg) rs)" by force
  with \<open>d = _\<close> show "d \<in> set (dropna (map (add_dates cfg) rs))"
    unfolding set_dropna by blast
qed

lemma in_final_frame:
  "w \<in> set (final_frame cfg rs) \<longleftrightarrow>
     (\<exists>r a b. r \<in> set rs \<and> add_dates cfg r = (r, Some a, Some b) \<and> a \<le> END_DATE
        \<and> w = finish cfg (adjust cfg
              \<lparr> src = r, date_of_diagnosis_yyyymmdd = a, date_of_last_contact_yyyymmdd = b \<rparr>))"
  (is "?L \<longleftrightarrow> ?R")
proof
  assume ?L
  then obtain d where d: "d \<in> set (dropna (map (add_dates cfg) rs))"
    and le: "date_of_diagnosis_yyyymmdd d \<le> END_DATE" and w: "w = finish cfg (adjust cfg d)"
    unfolding final_frame_filter by auto
  from d obtain r a b where "r \<in> set rs" "add_dates cfg r = (r, Some a, Some b)"
    and dd: "d = \<lparr> src = r, date_of_diagnosis_yyyymmdd = a, date_of_last_contact_yyyymmdd = b \<rparr>"
    unfolding in_dropna_add_dates by blast
  moreover from le dd have "a \<le> END_DATE" by simp
  ultimately show ?R using w dd by blast
next
  assume ?R
  then obtain r a b where r: "r \<in> set rs" "add_dates cfg r = (r, Some a, Some b)"
    and le: "a \<le> END_DATE"
    and w: "w = finish cfg (adjust cfg
              \<lparr> src = r, date_of_diagnosis_yyyymmdd = a, date_of_last_contact_yyyymmdd = b \<rparr>)"
    by blast
  let ?d = "\<lparr> src = r, date_of_diagnosis_yyyymmdd = a, date_of_last_contact_yyyymmdd = b \<rparr>"
  from r have "?d \<in> set (dropna (map (add_dates cfg) rs))"
    unfolding in_dropna_add_dates by blast
  moreover from le have "date_of_diagnosis_yyyymmdd ?d \<le> END_DATE" by simp
  ultimately have "finish cfg (adjust cfg ?d) \<in> set (final_frame cfg rs)"
    unfolding final_frame_filter by (simp del: dropna.simps)
  with w show ?L by simp
qed

lemma patient_simps:
  "patient i y m d ly lm ld v ''STUDYID'' = i"
  "patient i y m d ly lm ld v ''D_DATE_OF_DIAGNOSIS_YYYY'' = y"
  "patient i y m d ly lm ld v ''D_DATE_OF_DIAGNOSIS_MM'' = m"
  "patient i y m d ly lm ld v ''D_DATE_OF_DIAGNOSIS_DD'' = d"
  "patient i y m d ly lm ld v ''D_DATE_OF_LAST_CONTACT_YYYY'' = ly"
  "patient i y m d ly lm ld v ''D_DATE_OF_LAST_CONTACT_MM'' = lm"
  "patient i y m d ly lm ld v ''D_DATE_OF_LAST_CONTACT_DD'' = ld"
  "patient i y m d ly lm ld v ''D_VITAL_STATUS'' = v"
  by (simp_all add: patient_def)

lemma final_frame_Nil: "final_frame cfg [] = []"
  by (simp add: final_frame_filter)

lemma final_frame_Cons:
  "final_frame cfg (r # rs) =
     (case add_dates cfg r of
        (r', Some a, Some b) \<Rightarrow>
          if a \<le> END_DATE
          then [finish cfg (adjust cfg
                 \<lparr> src = r', date_of_diagnosis_yyyymmdd = a, date_of_last_contact_yyyymmdd = b \<rparr>)]
          else []
      | _ \<Rightarrow> []) @ final_frame cfg rs"
  by (simp add: final_frame_filter split: prod.splits option.splits)

lemma add_dates_A: "add_dates default_config patient_A = (patient_A, Some 16436, Some 18062)"
  by (simp add: add_dates_def patient_A_def patient_simps default_config_def parse_defs)

lemma add_dates_B: "add_dates default_config patient_B = (patient_B, Some 16436, Some 18687)"
  by (simp add: add_dates_def patient_B_def patient_simps default_config_def parse_defs)


lemma add_dates_blank: "add_dates default_config patient_blank = (patient_blank, Some 16436, Some 18062)"
  by (simp add: add_dates_def patient_blank_def patient_simps default_config_def parse_defs)

lemma add_dates_unknown: "add_dates default_config patient_unknown = (patient_unknown, Some 16436, Some 18062)"
  by (simp add: add_dates_def patient_unknown_def patient_simps default_config_def parse_defs)

lemma add_dates_reversed: "add_dates default_config patient_reversed = (patient_reversed, Some 18062, Some 16436)"
  by (simp add: add_dates_def patient_reversed_def patient_simps default_config_def parse_defs)

lemma add_dates_dead: "add_dates default_config patient_dead = (patient_dead, Some 16436, Some 18062)"
  by (simp add: add_dates_def patient_dead_def patient_simps default_config_def parse_defs)

lemma add_dates_C: "add_dates default_config patient_C = (patient_C, Some 18632, Some 18687)"
  by (simp add: add_dates_def patient_C_def patient_simps default_config_def parse_defs)

lemma add_dates_D: "add_dates default_config patient_D = (patient_D, None, Some 18062)"
  by (simp add: add_dates_def patient_D_def patient_simps default_config_def parse_defs)

lemmas add_dates_patients =
  add_dates_A add_dates_B add_dates_blank add_dates_unknown add_dates_reversed add_dates_dead
  add_dates_C add_dates_D

lemma patient_status:
  "patient_A ''D_VITAL_STATUS'' = StrV ''Alive''"
  "patient_B ''D_VITAL_STATUS'' = StrV ''Dead''"
  "patient_C ''D_VITAL_STATUS'' = StrV ''Alive''"
  "patient_D ''D_VITAL_STATUS'' = StrV ''Alive''"
  "patient_blank ''D_VITAL_STATUS'' = NanV"
  "patient_unknown ''D_VITAL_STATUS'' = StrV ''Unknown''"
  "patient_reversed ''D_VITAL_STATUS'' = StrV ''Alive''"
  "patient_dead ''D_VITAL_STATUS'' = StrV ''Dead''"
  by (simp_all add: row_defs)

lemma patient_id:
  "patient_A ''STUDYID'' = StrV ''A''"
  "patient_B ''STUDYID'' = StrV ''B''"
  "patient_C ''STUDYID'' = StrV ''C''"
  "patient_D ''STUDYID'' = StrV ''D''"
  "patient_blank ''STUDYID'' = StrV ''E''"
  "patient_unknown ''STUDYID'' = StrV ''F''"
  "patient_reversed ''STUDYID'' = StrV ''G''"
  "patient_dead ''STUDYID'' = StrV ''H''"
  by (simp_all add: row_defs)

lemma default_config_simps:
  "col_index default_config = ''STUDYID''"
  "col_vital_status default_config = ''D_VITAL_STATUS''"
  "vital_status_value_alive default_config = ''Alive''"
  "vital_status_value_deceased default_config = ''Dead''"
  by (simp_all add: default_config_def)

lemmas eval_frame =
  final_frame_Cons final_frame_Nil add_dates_patients END_DATE_value finish_def adjust_def
  deceased_overall_but_alive_at_study_end_def clip_upper_def censor_dict_def project_def
  patient_status patient_id default_config_simps

lemma main_success:
  assumes "\<not> outpath_exists w" and "input_table w = Some df"
    and "set (expected_cols cfg) \<subseteq> set (columns df)"
    and "StrV (vital_status_value_alive cfg) \<in> set (vital_status_column cfg df)"
  shows "main cfg w =
     ([CheckOutpath, ReadInput]
      @ (if StrV (vital_status_value_deceased cfg) \<notin> set (vital_status_column cfg df)
         then [Secho Yellow DeceasedValueAbsent] else [])
      @ [Secho Green SavingTo,
         ToCsv [col_index cfg, ''censorA.0yes.1no'', ''survivalA'']
           (map (project cfg) (final_frame cfg (rows df)))],
      Exit0)"
proof -
  from assms(3) have "filter (\<lambda>c. c \<notin> set (columns df)) (expected_cols cfg) = []"
    by (auto simp: filter_empty_conv)
  with assms(1,2,4) show ?thesis
    by (simp add: main_def)
qed

lemma csv_written_main:
  assumes "\<not> outpath_exists w" and "input_table w = Some df"
    and "set (expected_cols cfg) \<subseteq> set (columns df)"
    and "StrV (vital_status_value_alive cfg) \<in> set (vital_status_column cfg df)"
  shows "csv_written (fst (main cfg w)) = Some (map (project cfg) (final_frame cfg (rows df)))"
  by (simp add: main_success [OF assms])

lemma final_frame_row:
  assumes "w \<in> set (final_frame cfg rs)"
  obtains r a b where "r \<in> set rs" and "add_dates cfg r = (r, Some a, Some b)"
    and "a \<le> END_DATE"
    and "w = finish cfg (adjust cfg
              \<lparr> src = r, date_of_diagnosis_yyyymmdd = a, date_of_last_contact_yyyymmdd = b \<rparr>)"
  using assms unfolding in_final_frame by blast

lemma add_dates_parsed:
  "add_dates cfg r = (r', Some a, Some b) \<Longrightarrow>
     to_datetime (get_dt_diagnosis r (col_dod_yyyy cfg) (col_dod_mm cfg) (col_dod_dd cfg)) = Some a
     \<and> to_datetime (get_dt_last_contact r (col_dolc_yyyy cfg) (col_dolc_mm cfg) (col_dolc_dd cfg)) = Some b"
  by (auto simp: add_dates_def)

lemma fresh_world_simps:
  "outpath_exists (fresh_world rs) = False"
  "input_table (fresh_world rs) = Some \<lparr> columns = expected_cols default_config, rows = rs \<rparr>"
  by (simp_all add: fresh_world_def)

lemma final_frame_has_row:
  assumes "r \<in> set rs" and "add_dates cfg r = (r, Some a, Some b)" and "a \<le> END_DATE"
  shows "finish cfg (adjust cfg
           \<lparr> src = r, date_of_diagnosis_yyyymmdd = a, date_of_last_contact_yyyymmdd = b \<rparr>)
         \<in> set (final_frame cfg rs)"
  using assms unfolding in_final_frame by blast

lemma add_dates_eq:
  "to_datetime (get_dt_diagnosis r (col_dod_yyyy cfg) (col_dod_mm cfg) (col_dod_dd cfg)) = a \<Longrightarrow>
   to_datetime (get_dt_last_contact r (col_dolc_yyyy cfg) (col_dolc_mm cfg) (col_dolc_dd cfg)) = b \<Longrightarrow>
   add_dates cfg r = (r, a, b)"
  by (simp add: add_dates_def)

lemma map_src_final_frame: "map src (final_frame cfg rs) = filter (retained cfg) rs"
proof (induction rs)
  case Nil
  show ?case by (simp add: final_frame_Nil)
next
  case (Cons r rs)
  have "fst (add_dates cfg r) = r" by (rule fst_add_dates)
  with Cons show ?case
    by (auto simp: final_frame_Cons retained_def finish_def adjust_def
          split: prod.splits option.splits)
qed

lemma civil_days:
  "days_from_civil 2015 1 1 = 16436"
  "days_from_civil 2019 6 15 = 18062"
  "days_from_civil 2021 3 1 = 18687"
  by (simp_all add: days_from_civil_def)

lemma status_in_column:
  "r \<in> set (rows df) \<Longrightarrow> r (col_vital_status cfg) \<in> set (vital_status_column cfg df)"
  by (simp add: vital_status_column_def)

lemma censor_alive:
  "vital_status_value_alive cfg \<noteq> vital_status_value_deceased cfg \<Longrightarrow>
   replace_cell (censor_dict cfg) (StrV (vital_status_value_alive cfg)) = IntV 0"
  by (simp add: censor_dict_def)

lemma censor_deceased:
  "replace_cell (censor_dict cfg) (StrV (vital_status_value_deceased cfg)) = IntV 1"
  by (simp add: censor_dict_def)

lemma censor_other:
  "v \<noteq> StrV (vital_status_value_alive cfg) \<Longrightarrow> v \<noteq> StrV (vital_status_value_deceased cfg) \<Longrightarrow>
   replace_cell (censor_dict cfg) v = v"
  by (cases v) (simp_all add: censor_dict_def)

lemma final_row_fields:
  "src (finish cfg (adjust cfg d)) = src d"
  "date_of_diagnosis_yyyymmdd (finish cfg (adjust cfg d)) = date_of_diagnosis_yyyymmdd d"
  "date_of_last_contact_yyyymmdd (finish cfg (adjust cfg d)) = date_of_last_contact_yyyymmdd d"
  "vital_status_at_study_end (finish cfg (adjust cfg d)) =
     (if END_DATE < date_of_last_contact_yyyymmdd d
         \<and> src d (col_vital_status cfg) = StrV (vital_status_value_deceased cfg)
      then StrV (vital_status_value_alive cfg) else src d (col_vital_status cfg))"
  "date_of_last_contact_clipped_yyyymmdd (finish cfg (adjust cfg d)) =
     (if END_DATE < date_of_last_contact_yyyymmdd d then END_DATE
      else date_of_last_contact_yyyymmdd d)"
  "survivalA (finish cfg (adjust cfg d)) =
     date_of_last_contact_clipped_yyyymmdd (finish cfg (adjust cfg d))
       - date_of_diagnosis_yyyymmdd d"
  "censorA (finish cfg (adjust cfg d)) =
     replace_cell (censor_dict cfg) (vital_status_at_study_end (finish cfg (adjust cfg d)))"
  "project cfg (finish cfg (adjust cfg d)) =
     (src d (col_index cfg), censorA (finish cfg (adjust cfg d)),
      survivalA (finish cfg (adjust cfg d)))"
  by (simp_all add: finish_def adjust_def deceased_overall_but_alive_at_study_end_def
        clip_upper_def project_def)

subsection \<open>What the parser accepts\<close>

lemma split_on_not_Nil: "split_on c s \<noteq> []"
  by (induction s) (auto split: list.splits)

lemma split_on_no_sep: "c \<notin> set a \<Longrightarrow> split_on c a = [a]"
  by (induction a) auto

lemma split_on_append_sep: "c \<notin> set a \<Longrightarrow> split_on c (a @ c # b) = a # split_on c b"
  by (induction a) auto

lemma length_split_on: "length (split_on c s) = Suc (length (filter (\<lambda>x. x = c) s))"
  by (induction s) (auto split: list.splits simp: split_on_not_Nil)

lemma split_on_three:
  assumes "split_on c (a @ c # b @ c # d) = [p, q, r]"
  shows "p = a \<and> q = b \<and> r = d \<and> c \<notin> set a \<and> c \<notin> set b \<and> c \<notin> set d"
proof -
  have "length (split_on c (a @ c # b @ c # d)) = 3"
    using assms by simp
  then have "length (filter (\<lambda>x. x = c) a) + length (filter (\<lambda>x. x = c) b)
      + length (filter (\<lambda>x. x = c) d) = 0"
    unfolding length_split_on by simp
  then have n: "c \<notin> set a" "c \<notin> set b" "c \<notin> set d"
    by (auto simp: filter_empty_conv)
  then have "split_on c (a @ c # b @ c # d) = [a, b, d]"
    by (simp add: split_on_append_sep split_on_no_sep)
  with assms n show ?thesis by simp
qed

lemma digit_val_nth: "k < 10 \<Longrightarrow> digit_val (''0123456789'' ! k) = k"
proof -
  assume "k < 10"
  then have "k = 0 \<or> k = 1 \<or> k = 2 \<or> k = 3 \<or> k = 4 \<or> k = 5 \<or> k = 6 \<or> k = 7 \<or> k = 8 \<or> k = 9"
    by arith
  then show ?thesis
    by (elim disjE) (simp_all add: digit_val_def)
qed

lemma nat_of_digits_snoc: "nat_of_digits (xs @ [c]) = 10 * nat_of_digits xs + digit_val c"
  by (simp add: nat_of_digits_def)

lemma nat_of_digits_str_of_nat: "nat_of_digits (str_of_nat n) = n"
proof (induction n rule: str_of_nat.induct)
  case (1 n)
  show ?case
  proof (cases "n < 10")
    case True
    then show ?thesis
      by (subst str_of_nat.simps) (simp add: nat_of_digits_def digit_val_nth)
  next
    case False
    with 1 have "nat_of_digits (str_of_nat (n div 10)) = n div 10" by simp
    with False show ?thesis
      by (subst str_of_nat.simps) (simp add: nat_of_digits_snoc digit_val_nth)
  qed
qed

lemma not_digit_minus: "\<not> is_digit (CHR ''-'')"
  by (simp add: is_digit_def)

lemma not_digit_n: "\<not> is_digit (CHR ''n'')"
  by (simp add: is_digit_def)

lemma digits_field_number:
  assumes "list_all is_digit (format_cell v)" and "format_cell v \<noteq> []"
  shows "field_number v = Some (nat_of_digits (format_cell v))"
proof (cases v)
  case (IntV i)
  show ?thesis
  proof (cases "i < 0")
    case True
    with assms(1) IntV show ?thesis
      by (simp add: str_of_int_def not_digit_minus)
  next
    case False
    with IntV show ?thesis
      by (simp add: str_of_int_def nat_of_digits_str_of_nat)
  qed
next
  case (StrV s)
  with assms show ?thesis by simp
next
  case NanV
  with assms(1) show ?thesis by (simp add: not_digit_n)
qed

lemma to_datetime_Some_fields:
  assumes "to_datetime (format_cell y @ ''-'' @ format_cell m @ ''-'' @ format_cell d) = Some t"
  shows "forms_calendar_date y m d"
proof -
  let ?s = "format_cell y @ CHR ''-'' # format_cell m @ CHR ''-'' # format_cell d"
  from assms have s: "to_datetime ?s = Some t" by simp
  then obtain p q r where pqr: "split_on (CHR ''-'') ?s = [p, q, r]"
    by (auto simp: to_datetime_def split: list.splits)
  then have eq: "p = format_cell y" "q = format_cell m" "r = format_cell d"
    using split_on_three [OF pqr] by simp_all
  from s pqr have ok:
    "length p = 4 \<and> list_all is_digit p
     \<and> (length q = 1 \<or> length q = 2) \<and> list_all is_digit q
     \<and> (length r = 1 \<or> length r = 2) \<and> list_all is_digit r"
    by (simp add: to_datetime_def split: if_splits)
  with s pqr have rng:
    "1 \<le> nat_of_digits q \<and> nat_of_digits q \<le> 12 \<and> 1 \<le> nat_of_digits r
     \<and> nat_of_digits r \<le> days_in_month (nat_of_digits p) (nat_of_digits q)"
    by (simp add: to_datetime_def Let_def split: if_splits)
  from ok eq have
    "field_number y = Some (nat_of_digits p)"
    "field_number m = Some (nat_of_digits q)"
    "field_number d = Some (nat_of_digits r)"
    by (auto intro!: digits_field_number)
  with rng show ?thesis
    by (simp add: forms_calendar_date_def)
qed

lemma to_datetime_invalid:
  "\<not> forms_calendar_date y m d \<Longrightarrow>
   to_datetime (format_cell y @ ''-'' @ format_cell m @ ''-'' @ format_cell d) = None"
  using to_datetime_Some_fields [of y m d] by (cases "to_datetime (format_cell y @ ''-'' @ format_cell m @ ''-'' @ format_cell d)") auto

lemma retained_forms_calendar_date:
  assumes "add_dates cfg r = (r', Some a, Some b)"
  shows "forms_calendar_date (r (col_dod_yyyy cfg)) (r (col_dod_mm cfg)) (r (col_dod_dd cfg))
    \<and> forms_calendar_date (r (col_dolc_yyyy cfg)) (r (col_dolc_mm cfg)) (r (col_dolc_dd cfg))"
proof -
  from add_dates_parsed [OF assms]
  have "to_datetime (format_cell (r (col_dod_yyyy cfg)) @ ''-'' @ format_cell (r (col_dod_mm cfg))
            @ ''-'' @ format_cell (r (col_dod_dd cfg))) = Some a"
    and "to_datetime (format_cell (r (col_dolc_yyyy cfg)) @ ''-'' @ format_cell (r (col_dolc_mm cfg))
            @ ''-'' @ format_cell (r (col_dolc_dd cfg))) = Some b"
    by (simp_all add: get_dt_diagnosis_def get_dt_last_contact_def)
  then show ?thesis
    by (blast intro: to_datetime_Some_fields)
qed

section \<open>The properties\<close>

text \<open>
  C2. For every retained row, the vital status at study end is the alive sentinel when the
  raw vital status is the deceased sentinel and the unclipped last-contact date is strictly
  after the study end 2020-12-31; for every other retained row it is the raw vital status
  unchanged, whatever that value is. The last-contact date of the row is the one parsed
  from its three fields.
\<close>

theorem C2_reclassification:
  assumes "w \<in> set (final_frame cfg rs)"
  shows "to_datetime ''2020-12-31'' = Some END_DATE
    \<and> src w \<in> set rs
    \<and> to_datetime (get_dt_last_contact (src w) (col_dolc_yyyy cfg) (col_dolc_mm cfg) (col_dolc_dd cfg))
        = Some (date_of_last_contact_yyyymmdd w)
    \<and> (if src w (col_vital_status cfg) = StrV (vital_status_value_deceased cfg)
           \<and> END_DATE < date_of_last_contact_yyyymmdd w
        then vital_status_at_study_end w = StrV (vital_status_value_alive cfg)
        else vital_status_at_study_end w = src w (col_vital_status cfg))"
proof -
  from assms obtain r a b where r: "r \<in> set rs" and ad: "add_dates cfg r = (r, Some a, Some b)"
    and w: "w = finish cfg (adjust cfg
              \<lparr> src = r, date_of_diagnosis_yyyymmdd = a, date_of_last_contact_yyyymmdd = b \<rparr>)"
    by (rule final_frame_row)
  from w have s: "src w = r" and l: "date_of_last_contact_yyyymmdd w = b"
    by (simp_all add: finish_def adjust_def)
  from w have v: "vital_status_at_study_end w =
      (if END_DATE < b \<and> r (col_vital_status cfg) = StrV (vital_status_value_deceased cfg)
       then StrV (vital_status_value_alive cfg) else r (col_vital_status cfg))"
    by (simp add: finish_def adjust_def deceased_overall_but_alive_at_study_end_def)
  from add_dates_parsed [OF ad] s l r v show ?thesis
    by (simp add: to_datetime_study_end)
qed

theorem C2_reclassification_witness:
  "hd (final_frame default_config [patient_B, patient_unknown])
     \<in> set (final_frame default_config [patient_B, patient_unknown])
   \<and> vital_status_at_study_end (hd (final_frame default_config [patient_B, patient_unknown]))
       = StrV ''Alive''
   \<and> last (final_frame default_config [patient_B, patient_unknown])
       \<in> set (final_frame default_config [patient_B, patient_unknown])
   \<and> vital_status_at_study_end (last (final_frame default_config [patient_B, patient_unknown]))
       = StrV ''Unknown''"
  using C2_reclassification [of "hd (final_frame default_config [patient_B, patient_unknown])" default_config
              "[patient_B, patient_unknown]"]
    C2_reclassification [of "last (final_frame default_config [patient_B, patient_unknown])" default_config
              "[patient_B, patient_unknown]"]
  by (simp add: eval_frame)

text \<open>
  C4. For every retained row the clipped last-contact date is the minimum of the last-contact
  date and the study end 2020-12-31, whether or not the row was reclassified; so it is never
  after the study end, and it is the last-contact date itself when that is not after the
  study end.
\<close>

theorem C4_clipping:
  assumes "w \<in> set (final_frame cfg rs)"
  shows "date_of_last_contact_clipped_yyyymmdd w = min (date_of_last_contact_yyyymmdd w) END_DATE
    \<and> date_of_last_contact_clipped_yyyymmdd w \<le> END_DATE
    \<and> (date_of_last_contact_yyyymmdd w \<le> END_DATE \<longrightarrow>
         date_of_last_contact_clipped_yyyymmdd w = date_of_last_contact_yyyymmdd w)
    \<and> to_datetime ''2020-12-31'' = Some END_DATE"
proof -
  from assms obtain r a b where
    w: "w = finish cfg (adjust cfg
              \<lparr> src = r, date_of_diagnosis_yyyymmdd = a, date_of_last_contact_yyyymmdd = b \<rparr>)"
    by (rule final_frame_row)
  then have "date_of_last_contact_clipped_yyyymmdd w = min (date_of_last_contact_yyyymmdd w) END_DATE"
    by (simp add: finish_def adjust_def clip_upper_def min_def)
  then show ?thesis by (simp add: to_datetime_study_end)
qed

theorem C4_clipping_witness:
  "hd (final_frame default_config [patient_B, patient_A])
     \<in> set (final_frame default_config [patient_B, patient_A])
   \<and> date_of_last_contact_yyyymmdd (hd (final_frame default_config [patient_B, patient_A])) = 18687
   \<and> date_of_last_contact_clipped_yyyymmdd (hd (final_frame default_config [patient_B, patient_A])) = 18627
   \<and> last (final_frame default_config [patient_B, patient_A])
     \<in> set (final_frame default_config [patient_B, patient_A])
   \<and> date_of_last_contact_yyyymmdd (last (final_frame default_config [patient_B, patient_A])) = 18062
   \<and> date_of_last_contact_clipped_yyyymmdd (last (final_frame default_config [patient_B, patient_A])) = 18062"
  using C4_clipping [of "hd (final_frame default_config [patient_B, patient_A])" default_config
              "[patient_B, patient_A]"]
    C4_clipping [of "last (final_frame default_config [patient_B, patient_A])" default_config
              "[patient_B, patient_A]"]
  by (simp add: eval_frame)

text \<open>
  C8. When the output path exists at the start, the run stops with exit status 1 right
  after the check: the input is not read, no row is processed and nothing is written. In
  every run the output path is checked exactly once, as the first thing done.
\<close>

theorem C8_existing_outpath:
  "(outpath_exists w \<longrightarrow>
      main cfg w = ([CheckOutpath, Secho Red OutputPathExists], Exit1)
      \<and> ReadInput \<notin> set (fst (main cfg w))
      \<and> csv_written (fst (main cfg w)) = None)
   \<and> count_list (fst (main cfg w)) CheckOutpath = 1
   \<and> hd (fst (main cfg w)) = CheckOutpath"
  by (simp add: main_def Let_def split: option.splits)

theorem C8_existing_outpath_witness:
  "outpath_exists \<lparr> outpath_exists = True, input_table = Some \<lparr> columns = expected_cols default_config, rows = [patient_A] \<rparr> \<rparr>
   \<and> main default_config \<lparr> outpath_exists = True, input_table = Some \<lparr> columns = expected_cols default_config, rows = [patient_A] \<rparr> \<rparr>
       = ([CheckOutpath, Secho Red OutputPathExists], Exit1)"
  using C8_existing_outpath [of "\<lparr> outpath_exists = True, input_table = Some \<lparr> columns = expected_cols default_config, rows = [patient_A] \<rparr> \<rparr>" default_config]
  by simp

text \<open>
  C5. For every retained row, survival in days is the clipped last-contact date minus the
  diagnosis date, a whole number of days, and it is not negative when the diagnosis is not
  after the clipped last contact. Nothing checks that the diagnosis is not after the last
  contact: a row with its diagnosis after its last contact (and not after the study end)
  stays in the frame and in the lines written, with a negative number of days.
\<close>

theorem C5_survival_sign:
  "(\<forall>w \<in> set (final_frame cfg rs).
       survivalA w = date_of_last_contact_clipped_yyyymmdd w - date_of_diagnosis_yyyymmdd w
       \<and> (date_of_diagnosis_yyyymmdd w \<le> date_of_last_contact_clipped_yyyymmdd w \<longrightarrow> 0 \<le> survivalA w)
       \<and> (date_of_last_contact_yyyymmdd w < date_of_diagnosis_yyyymmdd w \<longrightarrow> survivalA w < 0))
   \<and> (\<forall>r \<in> set rs. \<forall>a b.
         add_dates cfg r = (r, Some a, Some b) \<and> b < a \<and> a \<le> END_DATE \<longrightarrow>
         (\<exists>w \<in> set (final_frame cfg rs).
            src w = r \<and> date_of_diagnosis_yyyymmdd w = a \<and> date_of_last_contact_yyyymmdd w = b
            \<and> survivalA w < 0 \<and> project cfg w \<in> set (map (project cfg) (final_frame cfg rs))))"
proof (intro conjI ballI allI impI)
  fix w assume "w \<in> set (final_frame cfg rs)"
  then obtain r a b where
    w: "w = finish cfg (adjust cfg
              \<lparr> src = r, date_of_diagnosis_yyyymmdd = a, date_of_last_contact_yyyymmdd = b \<rparr>)"
    by (rule final_frame_row)
  then show "survivalA w = date_of_last_contact_clipped_yyyymmdd w - date_of_diagnosis_yyyymmdd w"
    by (simp add: finish_def adjust_def)
  then show "0 \<le> survivalA w"
    if "date_of_diagnosis_yyyymmdd w \<le> date_of_last_contact_clipped_yyyymmdd w"
    using that by simp
  from w show "survivalA w < 0"
    if "date_of_last_contact_yyyymmdd w < date_of_diagnosis_yyyymmdd w"
    using that by (simp add: finish_def adjust_def clip_upper_def)
next
  fix r a b
  assume r: "r \<in> set rs" and h: "add_dates cfg r = (r, Some a, Some b) \<and> b < a \<and> a \<le> END_DATE"
  let ?w = "finish cfg (adjust cfg
           \<lparr> src = r, date_of_diagnosis_yyyymmdd = a, date_of_last_contact_yyyymmdd = b \<rparr>)"
  from r h have mem: "?w \<in> set (final_frame cfg rs)"
    by (simp add: final_frame_has_row)
  from h have "src ?w = r \<and> date_of_diagnosis_yyyymmdd ?w = a \<and> date_of_last_contact_yyyymmdd ?w = b
            \<and> survivalA ?w < 0"
    by (simp add: finish_def adjust_def clip_upper_def)
  with mem show "\<exists>w \<in> set (final_frame cfg rs).
            src w = r \<and> date_of_diagnosis_yyyymmdd w = a \<and> date_of_last_contact_yyyymmdd w = b
            \<and> survivalA w < 0 \<and> project cfg w \<in> set (map (project cfg) (final_frame cfg rs))"
    by (intro bexI [of _ ?w]) simp_all
qed

theorem C5_survival_sign_witness:
  "patient_reversed \<in> set [patient_A, patient_reversed]
   \<and> add_dates default_config patient_reversed = (patient_reversed, Some 18062, Some 16436)
   \<and> (16436::int) < 18062 \<and> 18062 \<le> END_DATE
   \<and> map survivalA (final_frame default_config [patient_A, patient_reversed]) = [1626, - 1626]
   \<and> (\<exists>w \<in> set (final_frame default_config [patient_A, patient_reversed]).
         src w = patient_reversed \<and> survivalA w < 0)"
proof -
  have h: "patient_reversed \<in> set [patient_A, patient_reversed]"
    "add_dates default_config patient_reversed = (patient_reversed, Some 18062, Some 16436)"
    "(16436::int) < 18062" "18062 \<le> END_DATE"
    by (simp_all add: add_dates_reversed END_DATE_value)
  have e: "map survivalA (final_frame default_config [patient_A, patient_reversed]) = [1626, - 1626]"
    by (simp add: eval_frame)
  from C5_survival_sign [of default_config "[patient_A, patient_reversed]"] h
  have "\<exists>w \<in> set (final_frame default_config [patient_A, patient_reversed]).
         src w = patient_reversed \<and> survivalA w < 0"
    by blast
  with h e show ?thesis by blast
qed

text \<open>
  C7. With the output path free, the table loaded and all required columns present: when
  the alive sentinel occurs nowhere in the vital-status column the run stops with exit
  status 1 after the red message, before any row is transformed, and writes nothing; when
  the alive sentinel occurs and the deceased sentinel does not, the run only adds a yellow
  warning and goes on to write the file and exit with status 0.
\<close>

theorem C7_sentinel_checks:
  assumes "\<not> outpath_exists w" and "input_table w = Some df"
    and "set (expected_cols cfg) \<subseteq> set (columns df)"
  shows "(StrV (vital_status_value_alive cfg) \<notin> set (vital_status_column cfg df) \<longrightarrow>
            main cfg w = ([CheckOutpath, ReadInput, Secho Red AliveValueAbsent], Exit1)
            \<and> csv_written (fst (main cfg w)) = None)
    \<and> (StrV (vital_status_value_alive cfg) \<in> set (vital_status_column cfg df)
          \<and> StrV (vital_status_value_deceased cfg) \<notin> set (vital_status_column cfg df) \<longrightarrow>
            main cfg w =
              ([CheckOutpath, ReadInput, Secho Yellow DeceasedValueAbsent, Secho Green SavingTo,
                ToCsv [col_index cfg, ''censorA.0yes.1no'', ''survivalA'']
                  (map (project cfg) (final_frame cfg (rows df)))],
               Exit0))"
proof (intro conjI impI)
  assume a: "StrV (vital_status_value_alive cfg) \<notin> set (vital_status_column cfg df)"
  from assms(3) have "filter (\<lambda>c. c \<notin> set (columns df)) (expected_cols cfg) = []"
    by (auto simp: filter_empty_conv)
  with assms(1,2) a
  show m: "main cfg w = ([CheckOutpath, ReadInput, Secho Red AliveValueAbsent], Exit1)"
    by (simp add: main_def)
  show "csv_written (fst (main cfg w)) = None"
    by (simp add: m)
next
  assume "StrV (vital_status_value_alive cfg) \<in> set (vital_status_column cfg df)
          \<and> StrV (vital_status_value_deceased cfg) \<notin> set (vital_status_column cfg df)"
  then show "main cfg w =
              ([CheckOutpath, ReadInput, Secho Yellow DeceasedValueAbsent, Secho Green SavingTo,
                ToCsv [col_index cfg, ''censorA.0yes.1no'', ''survivalA'']
                  (map (project cfg) (final_frame cfg (rows df)))],
               Exit0)"
    using main_success [OF assms] by simp
qed

theorem C7_sentinel_checks_witness:
  "main default_config (fresh_world [patient_dead])
     = ([CheckOutpath, ReadInput, Secho Red AliveValueAbsent], Exit1)
   \<and> main default_config (fresh_world [patient_A])
     = ([CheckOutpath, ReadInput, Secho Yellow DeceasedValueAbsent, Secho Green SavingTo,
         ToCsv [''STUDYID'', ''censorA.0yes.1no'', ''survivalA''] [(StrV ''A'', IntV 0, 1626)]],
        Exit0)"
proof -
  have a: "\<not> outpath_exists (fresh_world rs)"
    "input_table (fresh_world rs) = Some \<lparr> columns = expected_cols default_config, rows = rs \<rparr>"
    "set (expected_cols default_config)
       \<subseteq> set (columns \<lparr> columns = expected_cols default_config, rows = rs \<rparr>)" for rs
    by (simp_all add: fresh_world_simps)
  have d: "StrV (vital_status_value_alive default_config)
      \<notin> set (vital_status_column default_config
                \<lparr> columns = expected_cols default_config, rows = [patient_dead] \<rparr>)"
    by (simp add: vital_status_column_def default_config_simps patient_status)
  have l: "StrV (vital_status_value_alive default_config)
      \<in> set (vital_status_column default_config
                \<lparr> columns = expected_cols default_config, rows = [patient_A] \<rparr>)
     \<and> StrV (vital_status_value_deceased default_config)
      \<notin> set (vital_status_column default_config
                \<lparr> columns = expected_cols default_config, rows = [patient_A] \<rparr>)"
    by (simp add: vital_status_column_def default_config_simps patient_status)
  from C7_sentinel_checks [OF a, of "[patient_dead]"] d
  have 1: "main default_config (fresh_world [patient_dead])
     = ([CheckOutpath, ReadInput, Secho Red AliveValueAbsent], Exit1)"
    by blast
  from C7_sentinel_checks [OF a, of "[patient_A]"] l
  have "main default_config (fresh_world [patient_A])
     = ([CheckOutpath, ReadInput, Secho Yellow DeceasedValueAbsent, Secho Green SavingTo,
         ToCsv [col_index default_config, ''censorA.0yes.1no'', ''survivalA'']
           (map (project default_config)
              (final_frame default_config
                 (rows \<lparr> columns = expected_cols default_config, rows = [patient_A] \<rparr>)))],
        Exit0)"
    by blast
  then have 2: "main default_config (fresh_world [patient_A])
     = ([CheckOutpath, ReadInput, Secho Yellow DeceasedValueAbsent, Secho Green SavingTo,
         ToCsv [''STUDYID'', ''censorA.0yes.1no'', ''survivalA''] [(StrV ''A'', IntV 0, 1626)]],
        Exit0)"
    by (simp add: eval_frame)
  from 1 2 show ?thesis by simp
qed

text \<open>
  C10. The lines written follow the order of the input table: the source rows of the final
  frame are exactly the input rows that pass both filters (both dates parsed, diagnosis not
  after the study end), in their input order, so they form a subsequence of the input; each
  written line comes from the row at the same position of the final frame, and nothing
  reorders the frame before it is written.
\<close>

theorem C10_row_order:
  assumes "\<not> outpath_exists w" and "input_table w = Some df"
    and "set (expected_cols cfg) \<subseteq> set (columns df)"
    and "StrV (vital_status_value_alive cfg) \<in> set (vital_status_column cfg df)"
  shows "csv_written (fst (main cfg w)) = Some (map (project cfg) (final_frame cfg (rows df)))
    \<and> map src (final_frame cfg (rows df)) = filter (retained cfg) (rows df)
    \<and> subseq (map src (final_frame cfg (rows df))) (rows df)
    \<and> map fst (map (project cfg) (final_frame cfg (rows df)))
         = map (\<lambda>r. r (col_index cfg)) (filter (retained cfg) (rows df))"
proof -
  have 1: "map src (final_frame cfg (rows df)) = filter (retained cfg) (rows df)"
    by (rule map_src_final_frame)
  then have 2: "subseq (map src (final_frame cfg (rows df))) (rows df)"
    by simp
  have "map fst (map (project cfg) (final_frame cfg (rows df)))
          = map (\<lambda>r. r (col_index cfg)) (map src (final_frame cfg (rows df)))"
    by (simp add: project_def)
  with 1 have 3: "map fst (map (project cfg) (final_frame cfg (rows df)))
         = map (\<lambda>r. r (col_index cfg)) (filter (retained cfg) (rows df))"
    by simp
  from csv_written_main [OF assms] 1 2 3 show ?thesis by blast
qed

theorem C10_row_order_witness:
  "csv_written (fst (main default_config
       (fresh_world [patient_B, patient_C, patient_A, patient_D, patient_dead])))
     = Some [(StrV ''B'', IntV 0, 2191), (StrV ''A'', IntV 0, 1626), (StrV ''H'', IntV 1, 1626)]
   \<and> filter (retained default_config) [patient_B, patient_C, patient_A, patient_D, patient_dead]
     = [patient_B, patient_A, patient_dead]"
proof -
  let ?rs = "[patient_B, patient_C, patient_A, patient_D, patient_dead]"
  let ?df = "\<lparr> columns = expected_cols default_config, rows = ?rs \<rparr>"
  have a: "\<not> outpath_exists (fresh_world ?rs)" "input_table (fresh_world ?rs) = Some ?df"
    "set (expected_cols default_config) \<subseteq> set (columns ?df)"
    "StrV (vital_status_value_alive default_config) \<in> set (vital_status_column default_config ?df)"
    by (simp_all add: fresh_world_simps vital_status_column_def default_config_simps patient_status)
  have r: "filter (retained default_config) ?rs = [patient_B, patient_A, patient_dead]"
    by (simp add: retained_def add_dates_patients END_DATE_value)
  from C10_row_order [OF a]
  have "csv_written (fst (main default_config (fresh_world ?rs)))
          = Some (map (project default_config) (final_frame default_config (rows ?df)))"
    by blast
  then have "csv_written (fst (main default_config (fresh_world ?rs)))
     = Some [(StrV ''B'', IntV 0, 2191), (StrV ''A'', IntV 0, 1626), (StrV ''H'', IntV 1, 1626)]"
    by (simp add: eval_frame)
  with r show ?thesis by simp
qed

text \<open>
  C1, as the claim states it: scenario A gives 1627 days of survival. A run on a table
  holding only that patient writes the line with 1626 days, not 1627.
\<close>

theorem C1_scenario_A_counterexample:
  "csv_written (fst (main default_config (fresh_world [patient_A])))
     = Some [(StrV ''A'', IntV 0, 1626)]
   \<and> csv_written (fst (main default_config (fresh_world [patient_A])))
     \<noteq> Some [(StrV ''A'', IntV 0, 1627)]"
proof -
  let ?df = "\<lparr> columns = expected_cols default_config, rows = [patient_A] \<rparr>"
  have "csv_written (fst (main default_config (fresh_world [patient_A])))
          = Some (map (project default_config) (final_frame default_config (rows ?df)))"
    by (rule csv_written_main)
       (simp_all add: fresh_world_simps vital_status_column_def default_config_simps patient_status)
  then have "csv_written (fst (main default_config (fresh_world [patient_A])))
     = Some [(StrV ''A'', IntV 0, 1626)]"
    by (simp add: eval_frame)
  then show ?thesis by simp
qed

text \<open>
  C1, amended. A row whose diagnosis date is 2015-01-01, whose last-contact date is
  2019-06-15 and whose vital status is the alive sentinel (different from the deceased
  sentinel, as ``Alive'' is from ``Dead'') is retained, and its output record has censor 0
  and 1626 days of survival, the clipped last-contact date minus the diagnosis date in whole
  days.
\<close>

theorem C1_scenario_A:
  assumes "\<not> outpath_exists w" and "input_table w = Some df"
    and "set (expected_cols cfg) \<subseteq> set (columns df)"
    and "r \<in> set (rows df)"
    and "to_datetime (get_dt_diagnosis r (col_dod_yyyy cfg) (col_dod_mm cfg) (col_dod_dd cfg))
           = Some (days_from_civil 2015 1 1)"
    and "to_datetime (get_dt_last_contact r (col_dolc_yyyy cfg) (col_dolc_mm cfg) (col_dolc_dd cfg))
           = Some (days_from_civil 2019 6 15)"
    and "r (col_vital_status cfg) = StrV (vital_status_value_alive cfg)"
    and "vital_status_value_alive cfg \<noteq> vital_status_value_deceased cfg"
  shows "csv_written (fst (main cfg w)) = Some (map (project cfg) (final_frame cfg (rows df)))
    \<and> (\<exists>x \<in> set (final_frame cfg (rows df)).
          src x = r \<and> censorA x = IntV 0 \<and> survivalA x = 1626
          \<and> survivalA x = date_of_last_contact_clipped_yyyymmdd x - date_of_diagnosis_yyyymmdd x
          \<and> project cfg x = (r (col_index cfg), IntV 0, 1626))"
proof -
  have alive: "StrV (vital_status_value_alive cfg) \<in> set (vital_status_column cfg df)"
    using status_in_column [OF assms(4), of cfg] assms(7) by simp
  have ad: "add_dates cfg r = (r, Some 16436, Some 18062)"
    using assms(5,6) unfolding civil_days by (rule add_dates_eq)
  define x where "x = finish cfg (adjust cfg \<lparr> src = r, date_of_diagnosis_yyyymmdd = 16436,
              date_of_last_contact_yyyymmdd = 18062 \<rparr>)"
  have mem: "x \<in> set (final_frame cfg (rows df))"
    unfolding x_def using assms(4) ad by (rule final_frame_has_row) (simp add: END_DATE_value)
  have s: "src x = r" and dx: "date_of_diagnosis_yyyymmdd x = 16436"
    and cl: "date_of_last_contact_clipped_yyyymmdd x = 18062"
    unfolding x_def by (simp_all add: final_row_fields END_DATE_value)
  have vs: "vital_status_at_study_end x = StrV (vital_status_value_alive cfg)"
    unfolding x_def by (simp add: final_row_fields END_DATE_value assms(7))
  have ce: "censorA x = IntV 0"
    unfolding x_def final_row_fields(7) vs [unfolded x_def] by (rule censor_alive [OF assms(8)])
  have su: "survivalA x = 1626"
    unfolding x_def final_row_fields(6) cl [unfolded x_def] by simp
  have pr: "project cfg x = (r (col_index cfg), IntV 0, 1626)"
    unfolding x_def final_row_fields(8) ce [unfolded x_def] su [unfolded x_def] by simp
  have "src x = r \<and> censorA x = IntV 0 \<and> survivalA x = 1626
          \<and> survivalA x = date_of_last_contact_clipped_yyyymmdd x - date_of_diagnosis_yyyymmdd x
          \<and> project cfg x = (r (col_index cfg), IntV 0, 1626)"
    using s ce su cl dx pr by simp
  with mem have "\<exists>x \<in> set (final_frame cfg (rows df)).
          src x = r \<and> censorA x = IntV 0 \<and> survivalA x = 1626
          \<and> survivalA x = date_of_last_contact_clipped_yyyymmdd x - date_of_diagnosis_yyyymmdd x
          \<and> project cfg x = (r (col_index cfg), IntV 0, 1626)"
    by (rule rev_bexI)
  with csv_written_main [OF assms(1,2,3) alive] show ?thesis by (rule conjI)
qed

theorem C1_scenario_A_witness:
  "patient_A \<in> set [patient_A]
   \<and> to_datetime (get_dt_diagnosis patient_A (col_dod_yyyy default_config)
              (col_dod_mm default_config) (col_dod_dd default_config))
           = Some (days_from_civil 2015 1 1)
   \<and> to_datetime (get_dt_last_contact patient_A (col_dolc_yyyy default_config)
              (col_dolc_mm default_config) (col_dolc_dd default_config))
           = Some (days_from_civil 2019 6 15)
   \<and> patient_A (col_vital_status default_config) = StrV (vital_status_value_alive default_config)
   \<and> (\<exists>x \<in> set (final_frame default_config [patient_A]).
          src x = patient_A \<and> censorA x = IntV 0 \<and> survivalA x = 1626)"
proof -
  let ?df = "\<lparr> columns = expected_cols default_config, rows = [patient_A] \<rparr>"
  have a: "\<not> outpath_exists (fresh_world [patient_A])"
    "input_table (fresh_world [patient_A]) = Some ?df"
    "set (expected_cols default_config) \<subseteq> set (columns ?df)"
    "patient_A \<in> set (rows ?df)"
    by (simp_all add: fresh_world_simps)
  have p: "to_datetime (get_dt_diagnosis patient_A (col_dod_yyyy default_config)
              (col_dod_mm default_config) (col_dod_dd default_config))
           = Some (days_from_civil 2015 1 1)"
    "to_datetime (get_dt_last_contact patient_A (col_dolc_yyyy default_config)
              (col_dolc_mm default_config) (col_dolc_dd default_config))
           = Some (days_from_civil 2019 6 15)"
    using add_dates_parsed [OF add_dates_A] by (simp_all add: civil_days)
  have s: "patient_A (col_vital_status default_config) = StrV (vital_status_value_alive default_config)"
    "vital_status_value_alive default_config \<noteq> vital_status_value_deceased default_config"
    by (simp_all add: default_config_simps patient_status)
  have "\<exists>x \<in> set (final_frame default_config (rows ?df)).
          src x = patient_A \<and> censorA x = IntV 0 \<and> survivalA x = 1626
          \<and> survivalA x = date_of_last_contact_clipped_yyyymmdd x - date_of_diagnosis_yyyymmdd x
          \<and> project default_config x = (patient_A (col_index default_config), IntV 0, 1626)"
    using C1_scenario_A [OF a p s] by (rule conjunct2)
  then have "\<exists>x \<in> set (final_frame default_config [patient_A]).
          src x = patient_A \<and> censorA x = IntV 0 \<and> survivalA x = 1626"
    by fastforce
  with p s(1) show ?thesis by simp
qed

text \<open>
  C3. A row whose diagnosis date is 2015-01-01, whose last-contact date is 2021-03-01 and
  whose vital status is the deceased sentinel is reclassified as alive at study end, its
  last-contact date is clipped to 2020-12-31, and its output record has censor 0 and 2191
  days of survival.
\<close>

theorem C3_scenario_B:
  assumes "\<not> outpath_exists w" and "input_table w = Some df"
    and "set (expected_cols cfg) \<subseteq> set (columns df)"
    and "StrV (vital_status_value_alive cfg) \<in> set (vital_status_column cfg df)"
    and "r \<in> set (rows df)"
    and "to_datetime (get_dt_diagnosis r (col_dod_yyyy cfg) (col_dod_mm cfg) (col_dod_dd cfg))
           = Some (days_from_civil 2015 1 1)"
    and "to_datetime (get_dt_last_contact r (col_dolc_yyyy cfg) (col_dolc_mm cfg) (col_dolc_dd cfg))
           = Some (days_from_civil 2021 3 1)"
    and "r (col_vital_status cfg) = StrV (vital_status_value_deceased cfg)"
    and "vital_status_value_alive cfg \<noteq> vital_status_value_deceased cfg"
  shows "csv_written (fst (main cfg w)) = Some (map (project cfg) (final_frame cfg (rows df)))
    \<and> to_datetime ''2020-12-31'' = Some END_DATE
    \<and> (\<exists>x \<in> set (final_frame cfg (rows df)).
          src x = r
          \<and> vital_status_at_study_end x = StrV (vital_status_value_alive cfg)
          \<and> date_of_last_contact_clipped_yyyymmdd x = END_DATE
          \<and> censorA x = IntV 0 \<and> survivalA x = 2191
          \<and> project cfg x = (r (col_index cfg), IntV 0, 2191))"
proof -
  have ad: "add_dates cfg r = (r, Some 16436, Some 18687)"
    using assms(6,7) unfolding civil_days by (rule add_dates_eq)
  define x where "x = finish cfg (adjust cfg \<lparr> src = r, date_of_diagnosis_yyyymmdd = 16436,
              date_of_last_contact_yyyymmdd = 18687 \<rparr>)"
  have mem: "x \<in> set (final_frame cfg (rows df))"
    unfolding x_def using assms(5) ad by (rule final_frame_has_row) (simp add: END_DATE_value)
  have s: "src x = r"
    and cl: "date_of_last_contact_clipped_yyyymmdd x = END_DATE"
    unfolding x_def by (simp_all add: final_row_fields END_DATE_value)
  have vs: "vital_status_at_study_end x = StrV (vital_status_value_alive cfg)"
    unfolding x_def by (simp add: final_row_fields END_DATE_value assms(8))
  have ce: "censorA x = IntV 0"
    unfolding x_def final_row_fields(7) vs [unfolded x_def] by (rule censor_alive [OF assms(9)])
  have su: "survivalA x = 2191"
    unfolding x_def final_row_fields(6) cl [unfolded x_def] by (simp add: END_DATE_value)
  have pr: "project cfg x = (r (col_index cfg), IntV 0, 2191)"
    unfolding x_def final_row_fields(8) ce [unfolded x_def] su [unfolded x_def] by simp
  have "src x = r
          \<and> vital_status_at_study_end x = StrV (vital_status_value_alive cfg)
          \<and> date_of_last_contact_clipped_yyyymmdd x = END_DATE
          \<and> censorA x = IntV 0 \<and> survivalA x = 2191
          \<and> project cfg x = (r (col_index cfg), IntV 0, 2191)"
    using s vs cl ce su pr by simp
  with mem have "\<exists>x \<in> set (final_frame cfg (rows df)).
          src x = r
          \<and> vital_status_at_study_end x = StrV (vital_status_value_alive cfg)
          \<and> date_of_last_contact_clipped_yyyymmdd x = END_DATE
          \<and> censorA x = IntV 0 \<and> survivalA x = 2191
          \<and> project cfg x = (r (col_index cfg), IntV 0, 2191)"
    by (rule rev_bexI)
  with csv_written_main [OF assms(1,2,3,4)] to_datetime_study_end show ?thesis by simp
qed

theorem C3_scenario_B_witness:
  "patient_B \<in> set [patient_A, patient_B]
   \<and> to_datetime (get_dt_diagnosis patient_B (col_dod_yyyy default_config)
              (col_dod_mm default_config) (col_dod_dd default_config))
           = Some (days_from_civil 2015 1 1)
   \<and> to_datetime (get_dt_last_contact patient_B (col_dolc_yyyy default_config)
              (col_dolc_mm default_config) (col_dolc_dd default_config))
           = Some (days_from_civil 2021 3 1)
   \<and> patient_B (col_vital_status default_config) = StrV (vital_status_value_deceased default_config)
   \<and> csv_written (fst (main default_config (fresh_world [patient_A, patient_B])))
       = Some [(StrV ''A'', IntV 0, 1626), (StrV ''B'', IntV 0, 2191)]"
proof -
  let ?rs = "[patient_A, patient_B]"
  let ?df = "\<lparr> columns = expected_cols default_config, rows = ?rs \<rparr>"
  have a: "\<not> outpath_exists (fresh_world ?rs)"
    "input_table (fresh_world ?rs) = Some ?df"
    "set (expected_cols default_config) \<subseteq> set (columns ?df)"
    "StrV (vital_status_value_alive default_config) \<in> set (vital_status_column default_config ?df)"
    "patient_B \<in> set (rows ?df)"
    by (simp_all add: fresh_world_simps vital_status_column_def default_config_simps patient_status)
  have p: "to_datetime (get_dt_diagnosis patient_B (col_dod_yyyy default_config)
              (col_dod_mm default_config) (col_dod_dd default_config))
           = Some (days_from_civil 2015 1 1)"
    "to_datetime (get_dt_last_contact patient_B (col_dolc_yyyy default_config)
              (col_dolc_mm default_config) (col_dolc_dd default_config))
           = Some (days_from_civil 2021 3 1)"
    using add_dates_parsed [OF add_dates_B] by (simp_all add: civil_days)
  have s: "patient_B (col_vital_status default_config) = StrV (vital_status_value_deceased default_config)"
    "vital_status_value_alive default_config \<noteq> vital_status_value_deceased default_config"
    by (simp_all add: default_config_simps patient_status)
  have "csv_written (fst (main default_config (fresh_world ?rs)))
          = Some (map (project default_config) (final_frame default_config (rows ?df)))"
    using C3_scenario_B [OF a p s] by (rule conjunct1)
  then have "csv_written (fst (main default_config (fresh_world ?rs)))
       = Some [(StrV ''A'', IntV 0, 1626), (StrV ''B'', IntV 0, 2191)]"
    by (simp add: eval_frame)
  with p s(1) show ?thesis by simp
qed

text \<open>
  C9, as the claim states it: the censor value of a retained row whose status at study end
  is neither sentinel is never a missing value. A patient whose vital status cell is blank
  is retained with a status that is neither sentinel, and its censor value is the missing
  value.
\<close>

theorem C9_censor_passthrough_counterexample:
  "vital_status_at_study_end (last (final_frame default_config [patient_A, patient_blank]))
     \<noteq> StrV (vital_status_value_alive default_config)
   \<and> vital_status_at_study_end (last (final_frame default_config [patient_A, patient_blank]))
     \<noteq> StrV (vital_status_value_deceased default_config)
   \<and> src (last (final_frame default_config [patient_A, patient_blank])) = patient_blank
   \<and> censorA (last (final_frame default_config [patient_A, patient_blank])) = NanV
   \<and> csv_written (fst (main default_config (fresh_world [patient_A, patient_blank])))
       = Some [(StrV ''A'', IntV 0, 1626), (StrV ''E'', NanV, 1626)]"
proof -
  let ?rs = "[patient_A, patient_blank]"
  let ?df = "\<lparr> columns = expected_cols default_config, rows = ?rs \<rparr>"
  have "csv_written (fst (main default_config (fresh_world ?rs)))
          = Some (map (project default_config) (final_frame default_config (rows ?df)))"
    by (rule csv_written_main)
       (simp_all add: fresh_world_simps vital_status_column_def default_config_simps patient_status)
  then have "csv_written (fst (main default_config (fresh_world ?rs)))
       = Some [(StrV ''A'', IntV 0, 1626), (StrV ''E'', NanV, 1626)]"
    by (simp add: eval_frame)
  then show ?thesis by (simp add: eval_frame)
qed

text \<open>
  C9, amended. For every retained row whose vital status at study end is neither sentinel,
  the censor column holds the raw vital status passed through unchanged (so a raw value
  that is a string is never turned into a missing value, 0 or 1, and a blank stays blank);
  only a value equal to a sentinel is changed by the mapping: the deceased sentinel to 1
  and, when the two sentinels differ, the alive sentinel to 0.
\<close>

theorem C9_censor_passthrough:
  assumes "x \<in> set (final_frame cfg rs)"
  shows "(vital_status_at_study_end x \<noteq> StrV (vital_status_value_alive cfg)
          \<and> vital_status_at_study_end x \<noteq> StrV (vital_status_value_deceased cfg) \<longrightarrow>
            censorA x = src x (col_vital_status cfg)
            \<and> vital_status_at_study_end x = src x (col_vital_status cfg)
            \<and> (\<forall>s. src x (col_vital_status cfg) = StrV s \<longrightarrow>
                  censorA x \<noteq> NanV \<and> censorA x \<noteq> IntV 0 \<and> censorA x \<noteq> IntV 1))
    \<and> (vital_status_at_study_end x = StrV (vital_status_value_deceased cfg) \<longrightarrow> censorA x = IntV 1)
    \<and> (vital_status_at_study_end x = StrV (vital_status_value_alive cfg)
          \<and> vital_status_value_alive cfg \<noteq> vital_status_value_deceased cfg \<longrightarrow> censorA x = IntV 0)
    \<and> (censorA x \<noteq> vital_status_at_study_end x \<longrightarrow>
          vital_status_at_study_end x = StrV (vital_status_value_alive cfg)
          \<or> vital_status_at_study_end x = StrV (vital_status_value_deceased cfg))"
proof -
  from assms obtain r a b where
    x: "x = finish cfg (adjust cfg
              \<lparr> src = r, date_of_diagnosis_yyyymmdd = a, date_of_last_contact_yyyymmdd = b \<rparr>)"
    by (rule final_frame_row)
  have c: "censorA x = replace_cell (censor_dict cfg) (vital_status_at_study_end x)"
    unfolding x by (rule final_row_fields(7))
  have v: "vital_status_at_study_end x = StrV (vital_status_value_alive cfg)
           \<or> vital_status_at_study_end x = src x (col_vital_status cfg)"
    unfolding x by (simp add: final_row_fields)
  have 1: "censorA x = src x (col_vital_status cfg)
            \<and> vital_status_at_study_end x = src x (col_vital_status cfg)
            \<and> (\<forall>s. src x (col_vital_status cfg) = StrV s \<longrightarrow>
                  censorA x \<noteq> NanV \<and> censorA x \<noteq> IntV 0 \<and> censorA x \<noteq> IntV 1)"
    if "vital_status_at_study_end x \<noteq> StrV (vital_status_value_alive cfg)"
      and "vital_status_at_study_end x \<noteq> StrV (vital_status_value_deceased cfg)"
  proof -
    from that have "censorA x = vital_status_at_study_end x"
      unfolding c by (rule censor_other)
    moreover from v that(1) have "vital_status_at_study_end x = src x (col_vital_status cfg)"
      by simp
    ultimately show ?thesis by auto
  qed
  have 2: "censorA x = IntV 1"
    if "vital_status_at_study_end x = StrV (vital_status_value_deceased cfg)"
    unfolding c that by (rule censor_deceased)
  have 3: "censorA x = IntV 0"
    if "vital_status_at_study_end x = StrV (vital_status_value_alive cfg)"
      and "vital_status_value_alive cfg \<noteq> vital_status_value_deceased cfg"
    unfolding c that(1) using that(2) by (rule censor_alive)
  have 4: "vital_status_at_study_end x = StrV (vital_status_value_alive cfg)
          \<or> vital_status_at_study_end x = StrV (vital_status_value_deceased cfg)"
    if "censorA x \<noteq> vital_status_at_study_end x"
    using that 1 by metis
  from 1 2 3 4 show ?thesis by blast
qed

theorem C9_censor_passthrough_witness:
  "last (final_frame default_config [patient_A, patient_unknown])
      \<in> set (final_frame default_config [patient_A, patient_unknown])
   \<and> vital_status_at_study_end (last (final_frame default_config [patient_A, patient_unknown]))
       \<noteq> StrV (vital_status_value_alive default_config)
   \<and> vital_status_at_study_end (last (final_frame default_config [patient_A, patient_unknown]))
       \<noteq> StrV (vital_status_value_deceased default_config)
   \<and> censorA (last (final_frame default_config [patient_A, patient_unknown])) = StrV ''Unknown''
   \<and> censorA (hd (final_frame default_config [patient_A, patient_unknown])) = IntV 0"
  using C9_censor_passthrough [of "last (final_frame default_config [patient_A, patient_unknown])" default_config
              "[patient_A, patient_unknown]"]
    C9_censor_passthrough [of "hd (final_frame default_config [patient_A, patient_unknown])" default_config
              "[patient_A, patient_unknown]"]
  by (simp add: eval_frame)

text \<open>
  C6. Date reconstruction formats the three raw fields of a row as year-month-day with
  hyphens and parses the text under the year-month-day rule. When the three fields do not
  form a valid calendar date (a month or day out of range, a fragment that is not a number,
  a missing fragment; month 13 for one) the result is the unparseable marker, and nothing
  is raised. A row with such a date never reaches the final frame or the file, and the run
  still ends with exit status 0 whatever the rows hold.
\<close>

theorem C6_unparseable_dates:
  assumes "\<not> outpath_exists w" and "input_table w = Some df"
    and "set (expected_cols cfg) \<subseteq> set (columns df)"
    and "StrV (vital_status_value_alive cfg) \<in> set (vital_status_column cfg df)"
  shows "get_dt_diagnosis r cy cm cd
           = format_cell (r cy) @ ''-'' @ format_cell (r cm) @ ''-'' @ format_cell (r cd)
    \<and> get_dt_last_contact r cy cm cd
           = format_cell (r cy) @ ''-'' @ format_cell (r cm) @ ''-'' @ format_cell (r cd)
    \<and> (\<not> forms_calendar_date (r cy) (r cm) (r cd) \<longrightarrow>
          to_datetime (get_dt_diagnosis r cy cm cd) = None
          \<and> to_datetime (get_dt_last_contact r cy cm cd) = None)
    \<and> (\<forall>x \<in> set (final_frame cfg (rows df)).
          forms_calendar_date (src x (col_dod_yyyy cfg)) (src x (col_dod_mm cfg))
            (src x (col_dod_dd cfg))
          \<and> forms_calendar_date (src x (col_dolc_yyyy cfg)) (src x (col_dolc_mm cfg))
            (src x (col_dolc_dd cfg)))
    \<and> (\<forall>q \<in> set (rows df).
          \<not> forms_calendar_date (q (col_dod_yyyy cfg)) (q (col_dod_mm cfg)) (q (col_dod_dd cfg))
          \<or> \<not> forms_calendar_date (q (col_dolc_yyyy cfg)) (q (col_dolc_mm cfg)) (q (col_dolc_dd cfg))
          \<longrightarrow> q \<notin> set (map src (final_frame cfg (rows df))))
    \<and> snd (main cfg w) = Exit0
    \<and> csv_written (fst (main cfg w)) = Some (map (project cfg) (final_frame cfg (rows df)))"
proof -
  have f: "get_dt_diagnosis r cy cm cd
           = format_cell (r cy) @ ''-'' @ format_cell (r cm) @ ''-'' @ format_cell (r cd)"
    "get_dt_last_contact r cy cm cd
           = format_cell (r cy) @ ''-'' @ format_cell (r cm) @ ''-'' @ format_cell (r cd)"
    by (simp_all add: get_dt_diagnosis_def get_dt_last_contact_def)
  have n: "to_datetime (get_dt_diagnosis r cy cm cd) = None
          \<and> to_datetime (get_dt_last_contact r cy cm cd) = None"
    if "\<not> forms_calendar_date (r cy) (r cm) (r cd)"
    using to_datetime_invalid [OF that] by (simp add: f)
  have k: "forms_calendar_date (src x (col_dod_yyyy cfg)) (src x (col_dod_mm cfg))
            (src x (col_dod_dd cfg))
          \<and> forms_calendar_date (src x (col_dolc_yyyy cfg)) (src x (col_dolc_mm cfg))
            (src x (col_dolc_dd cfg))"
    if "x \<in> set (final_frame cfg (rows df))" for x
  proof -
    from that obtain q a b where ad: "add_dates cfg q = (q, Some a, Some b)"
      and x: "x = finish cfg (adjust cfg
              \<lparr> src = q, date_of_diagnosis_yyyymmdd = a, date_of_last_contact_yyyymmdd = b \<rparr>)"
      by (rule final_frame_row)
    from x have "src x = q" by (simp add: final_row_fields)
    with retained_forms_calendar_date [OF ad] show ?thesis by simp
  qed
  have d: "q \<notin> set (map src (final_frame cfg (rows df)))"
    if "\<not> forms_calendar_date (q (col_dod_yyyy cfg)) (q (col_dod_mm cfg)) (q (col_dod_dd cfg))
          \<or> \<not> forms_calendar_date (q (col_dolc_yyyy cfg)) (q (col_dolc_mm cfg)) (q (col_dolc_dd cfg))"
    for q
    using that k by auto
  have e: "snd (main cfg w) = Exit0"
    by (simp add: main_success [OF assms])
  from f n k d e csv_written_main [OF assms] show ?thesis by blast
qed

theorem C6_unparseable_dates_witness:
  "\<not> forms_calendar_date (patient_D ''D_DATE_OF_DIAGNOSIS_YYYY'') (patient_D ''D_DATE_OF_DIAGNOSIS_MM'')
        (patient_D ''D_DATE_OF_DIAGNOSIS_DD'')
   \<and> get_dt_diagnosis patient_D ''D_DATE_OF_DIAGNOSIS_YYYY'' ''D_DATE_OF_DIAGNOSIS_MM''
        ''D_DATE_OF_DIAGNOSIS_DD'' = ''2015-13-01''
   \<and> to_datetime ''2015-13-01'' = None
   \<and> main default_config (fresh_world [patient_A, patient_D])
       = ([CheckOutpath, ReadInput, Secho Yellow DeceasedValueAbsent, Secho Green SavingTo,
           ToCsv [''STUDYID'', ''censorA.0yes.1no'', ''survivalA''] [(StrV ''A'', IntV 0, 1626)]],
          Exit0)"
proof -
  let ?rs = "[patient_A, patient_D]"
  let ?df = "\<lparr> columns = expected_cols default_config, rows = ?rs \<rparr>"
  have a: "\<not> outpath_exists (fresh_world ?rs)"
    "input_table (fresh_world ?rs) = Some ?df"
    "set (expected_cols default_config) \<subseteq> set (columns ?df)"
    "StrV (vital_status_value_alive default_config) \<in> set (vital_status_column default_config ?df)"
    by (simp_all add: fresh_world_simps vital_status_column_def default_config_simps patient_status)
  note c = C6_unparseable_dates [OF a, of patient_D "''D_DATE_OF_DIAGNOSIS_YYYY''" "''D_DATE_OF_DIAGNOSIS_MM''"
        "''D_DATE_OF_DIAGNOSIS_DD''"]
  have nf: "\<not> forms_calendar_date (patient_D ''D_DATE_OF_DIAGNOSIS_YYYY'')
        (patient_D ''D_DATE_OF_DIAGNOSIS_MM'') (patient_D ''D_DATE_OF_DIAGNOSIS_DD'')"
    by (simp add: forms_calendar_date_def patient_D_def patient_simps is_digit_def
          nat_of_digits_def digit_val_def)
  have g: "get_dt_diagnosis patient_D ''D_DATE_OF_DIAGNOSIS_YYYY'' ''D_DATE_OF_DIAGNOSIS_MM''
        ''D_DATE_OF_DIAGNOSIS_DD'' = ''2015-13-01''"
    by (simp add: get_dt_diagnosis_def patient_D_def patient_simps)
  from c nf have "to_datetime (get_dt_diagnosis patient_D ''D_DATE_OF_DIAGNOSIS_YYYY''
        ''D_DATE_OF_DIAGNOSIS_MM'' ''D_DATE_OF_DIAGNOSIS_DD'') = None"
    by blast
  then have t: "to_datetime ''2015-13-01'' = None"
    unfolding g .
  have m: "main default_config (fresh_world ?rs)
       = ([CheckOutpath, ReadInput, Secho Yellow DeceasedValueAbsent, Secho Green SavingTo,
           ToCsv [''STUDYID'', ''censorA.0yes.1no'', ''survivalA''] [(StrV ''A'', IntV 0, 1626)]],
          Exit0)"
    unfolding main_success [OF a]
    by (simp add: eval_frame vital_status_column_def)
  from nf g t m show ?thesis by blast
qed

end
